theory Spec2Isabelle
  imports Main "HOL-Library.AList"
begin

section \<open>Python strings\<close>

text \<open>
  Python \<open>str\<close> values are modelled as \<open>string\<close>, one \<open>char\<close> per code point, so the
  model covers texts over the code points 0..255. On that range \<open>is_space\<close> is exactly
  \<open>str.isspace\<close> and \<open>lower\<close> is exactly \<open>str.lower\<close>. The message of a raised exception
  (\<open>str(e)\<close>) stands for the exception.
\<close>

type_synonym exc = string

definition is_space :: "char \<Rightarrow> bool" where
  "is_space c = (let n = (of_char c :: nat) in
     (9 \<le> n \<and> n \<le> 13) \<or> (28 \<le> n \<and> n \<le> 32) \<or> n = 133 \<or> n = 160)"

definition strip :: "string \<Rightarrow> string" where
  "strip s = rev (dropWhile is_space (rev (dropWhile is_space s)))"

definition lower_char :: "char \<Rightarrow> char" where
  "lower_char c = (let n = (of_char c :: nat) in
     if (65 \<le> n \<and> n \<le> 90) \<or> (192 \<le> n \<and> n \<le> 222 \<and> n \<noteq> 215)
     then char_of (n + 32) else c)"

definition lower :: "string \<Rightarrow> string" where
  "lower s = map lower_char s"

fun startswith :: "string \<Rightarrow> string \<Rightarrow> bool" where
  "startswith s [] = True"
| "startswith [] (p # ps) = False"
| "startswith (c # s) (p # ps) = (c = p \<and> startswith s ps)"

text \<open>\<open>contains sub s\<close> is Python's \<open>sub in s\<close>.\<close>

fun contains :: "string \<Rightarrow> string \<Rightarrow> bool" where
  "contains sub [] = (sub = [])"
| "contains sub (c # s) = (startswith (c # s) sub \<or> contains sub s)"

text \<open>\<open>join sep xs\<close> is Python's \<open>sep.join(xs)\<close>.\<close>

fun join :: "string \<Rightarrow> string list \<Rightarrow> string" where
  "join sep [] = []"
| "join sep [x] = x"
| "join sep (x # y # ys) = x @ sep @ join sep (y # ys)"

definition digit_char :: "nat \<Rightarrow> char" where
  "digit_char d = char_of (48 + d)"

text \<open>\<open>str_nat n\<close> is Python's \<open>str(n)\<close> for a non-negative integer.\<close>

fun str_nat :: "nat \<Rightarrow> string" where
  "str_nat n = (if n < 10 then [digit_char n] else str_nat (n div 10) @ [digit_char (n mod 10)])"

declare str_nat.simps [simp del]

text \<open>
  \<open>rsplit_dot s\<close> is \<open>s.rsplit('.', 1)[1]\<close>: the text after the last dot, and \<open>None\<close>
  (Python's IndexError) when \<open>s\<close> has no dot.
\<close>

definition rsplit_dot :: "string \<Rightarrow> string option" where
  "rsplit_dot s = (if CHR ''.'' \<in> set s
     then Some (rev (takeWhile (\<lambda>c. c \<noteq> CHR ''.'') (rev s))) else None)"

text \<open>
  \<open>before_sep sep s\<close> is the text of \<open>s\<close> before the first occurrence of the non-empty
  \<open>sep\<close> (all of \<open>s\<close> when there is none): the first element of \<open>s.split(sep)\<close>.
\<close>

fun before_sep :: "string \<Rightarrow> string \<Rightarrow> string" where
  "before_sep sep [] = []"
| "before_sep sep (c # s) = (if startswith (c # s) sep then [] else c # before_sep sep s)"

section \<open>utils.py: text extraction and analysis\<close>

text \<open>
  The external collaborators of \<open>utils.py\<close> are parameters of the model: rasterising a
  PDF (\<open>convert_from_path\<close>), opening an image (\<open>Image.open\<close>), OCR
  (\<open>pytesseract.image_to_string\<close>) and the text generation service
  (\<open>client.models.generate_content\<close>, whose result is \<open>response.text\<close>, possibly
  \<open>None\<close>). Each either raises (\<open>Inl\<close> of the message) or returns (\<open>Inr\<close>).
\<close>

record 'img services =
  convert_from_path :: "string \<Rightarrow> exc + 'img list"
  image_open :: "string \<Rightarrow> exc + 'img"
  image_to_string :: "'img \<Rightarrow> exc + string"
  generate_content :: "string \<Rightarrow> exc + string option"

text \<open>
  The calls a run makes, in order: of the analysis function (\<open>Analyze\<close>, with its
  argument), of the generation service (\<open>Generate\<close>, with the prompt), and, in
  \<open>app.py\<close>, of the object store and the document store: an upload (blob path, local
  path), a document write (user, report data), a report query (user, limit) and a document
  read (user, report id).
\<close>

datatype event =
    Analyze string
  | Generate string
  | BlobUpload string string
  | DocSet string "(string \<times> string) list"
  | QueryStream string int
  | DocGet string string

definition extract_text_from_image :: "'img services \<Rightarrow> string \<Rightarrow> exc + string" where
  "extract_text_from_image sv image_path =
     (case image_open sv image_path of
        Inl e \<Rightarrow> Inl (''Failed to extract text from image: '' @ e)
      | Inr img \<Rightarrow>
          (case image_to_string sv img of
             Inl e \<Rightarrow> Inl (''Failed to extract text from image: '' @ e)
           | Inr text \<Rightarrow> Inr (strip text)))"

definition page_section :: "nat \<Rightarrow> string \<Rightarrow> string" where
  "page_section i page_text =
     ''--- Page '' @ str_nat (i + 1) @ '' ---\<newline>'' @ strip page_text"

text \<open>
  The loop of \<open>extract_text_from_pdf\<close> over \<open>enumerate(images)\<close>: \<open>i\<close> is the index of
  the next page, \<open>all_text\<close> the list built so far. An OCR failure leaves the loop.
\<close>

fun pdf_pages :: "'img services \<Rightarrow> nat \<Rightarrow> 'img list \<Rightarrow> string list \<Rightarrow> exc + string list" where
  "pdf_pages sv i [] all_text = Inr all_text"
| "pdf_pages sv i (img # images) all_text =
     (case image_to_string sv img of
        Inl e \<Rightarrow> Inl e
      | Inr page_text \<Rightarrow>
          if strip page_text \<noteq> []
          then pdf_pages sv (i + 1) images (all_text @ [page_section i page_text])
          else pdf_pages sv (i + 1) images all_text)"

definition extract_text_from_pdf :: "'img services \<Rightarrow> string \<Rightarrow> exc + string" where
  "extract_text_from_pdf sv pdf_path =
     (case convert_from_path sv pdf_path of
        Inl e \<Rightarrow> Inl (''Failed to extract text from PDF: '' @ e)
      | Inr images \<Rightarrow>
          (case pdf_pages sv 0 images [] of
             Inl e \<Rightarrow> Inl (''Failed to extract text from PDF: '' @ e)
           | Inr all_text \<Rightarrow> Inr (join ''\<newline>\<newline>'' all_text)))"

definition insufficient_text_msg :: string where
  "insufficient_text_msg = ''Unable to analyze: insufficient text extracted from the document.''"

definition MAX_CHARS :: nat where
  "MAX_CHARS = 15000"

definition truncation_marker :: string where
  "truncation_marker = ''\<newline>...[Text truncated due to length]''"

definition prompt_head :: string where
  \<open>prompt_head =
     ''Analyze the following medical text and provide a clear, patient-friendly explanation that includes:\<newline>\<newline>''
     @ ''1. **Document Type**: Identify if this is a lab report, prescription, radiology report, etc.\<newline>''
     @ ''2. **Key Findings**: List the main test results, medications, or findings\<newline>''
     @ ''3. **Normal vs Abnormal**: Highlight any values that are outside normal ranges (if applicable)\<newline>''
     @ ''4. **Simple Explanation**: Explain what these results mean in simple, non-technical language\<newline>''
     @ ''5. **Recommendations**: Suggest next steps (e.g., '' @ [CHR 0x22] @ ''discuss with your doctor''
     @ [CHR 0x22] @ '', '' @ [CHR 0x22] @ ''this appears normal'' @ [CHR 0x22] @ '')\<newline>\<newline>''
     @ ''Medical Text:\<newline>''\<close>

definition prompt_tail :: string where
  "prompt_tail =
     ''\<newline>\<newline>Remember to include the important disclaimer at the end of your analysis.''"

text \<open>The f-string \<open>user_prompt\<close>: the text between a fixed head and a fixed tail.\<close>

definition user_prompt :: "string \<Rightarrow> string" where
  "user_prompt extracted_text = prompt_head @ extracted_text @ prompt_tail"

definition no_analysis_msg :: string where
  "no_analysis_msg =
     ''AI analysis could not be generated. Please try again or consult your healthcare provider.''"

definition unavailable_msg :: string where
  "unavailable_msg =
     ''Service temporarily unavailable due to high demand. Please try again in a few moments.''"

definition config_error_msg :: string where
  "config_error_msg = ''API configuration error. Please contact support.''"

definition too_large_msg :: string where
  "too_large_msg =
     ''Document is too large to analyze. Please try a shorter document or split it into sections.''"

text \<open>
  \<open>analyze_medical_text_with_ai\<close> returns the service calls it made and its outcome. The
  model name, the system instruction and the sampling configuration of the call are
  constants of the source and are left out of the \<open>Generate\<close> event.
\<close>

definition analyze_medical_text_with_ai ::
    "'img services \<Rightarrow> string \<Rightarrow> event list \<times> (exc + string)" where
  "analyze_medical_text_with_ai sv extracted_text =
     (if extracted_text = [] \<or> length (strip extracted_text) < 10
      then ([], Inr insufficient_text_msg)
      else
        let extracted_text' =
              (if length extracted_text > MAX_CHARS
               then take MAX_CHARS extracted_text @ truncation_marker
               else extracted_text);
            prompt = user_prompt extracted_text'
        in (case generate_content sv prompt of
              Inr response_text \<Rightarrow>
                (case response_text of
                   None \<Rightarrow> ([Generate prompt], Inr no_analysis_msg)
                 | Some t \<Rightarrow>
                     if t \<noteq> [] then ([Generate prompt], Inr t)
                     else ([Generate prompt], Inr no_analysis_msg))
            | Inl e \<Rightarrow>
                let error_msg = lower e in
                if contains ''quota'' error_msg \<or> contains ''rate'' error_msg
                then ([Generate prompt], Inr unavailable_msg)
                else if contains ''invalid'' error_msg \<and> contains ''api'' error_msg
                then ([Generate prompt], Inr config_error_msg)
                else if contains ''token'' error_msg \<or> contains ''length'' error_msg
                then ([Generate prompt], Inr too_large_msg)
                else ([Generate prompt],
                      Inl (''Failed to analyze medical text with AI: '' @ e))))"

definition no_text_msg :: string where
  "no_text_msg =
     ''No readable text found in the document. Please ensure the image is clear and contains text.''"

text \<open>The \<open>if\<close>/\<open>elif\<close>/\<open>else\<close> of \<open>process_uploaded_file\<close> that picks the extractor.\<close>

definition extract_by_extension :: "'img services \<Rightarrow> string \<Rightarrow> string \<Rightarrow> exc + string" where
  "extract_by_extension sv file_path file_extension =
     (if lower file_extension = ''pdf'' then extract_text_from_pdf sv file_path
      else if lower file_extension \<in> set [''png'', ''jpg'', ''jpeg'', ''gif'']
      then extract_text_from_image sv file_path
      else Inl (''Unsupported file type: '' @ file_extension))"

definition process_uploaded_file ::
    "'img services \<Rightarrow> string \<Rightarrow> string \<Rightarrow> event list \<times> (exc + string \<times> string)" where
  "process_uploaded_file sv file_path file_extension =
     (case extract_by_extension sv file_path file_extension of
        Inl e \<Rightarrow> ([], Inl (''Failed to process file: '' @ e))
      | Inr extracted_text \<Rightarrow>
          if extracted_text = [] \<or> length (strip extracted_text) < 5
          then ([], Inr ([], no_text_msg))
          else
            (case analyze_medical_text_with_ai sv extracted_text of
               (calls, Inl e) \<Rightarrow>
                 (Analyze extracted_text # calls, Inl (''Failed to process file: '' @ e))
             | (calls, Inr ai_analysis) \<Rightarrow>
                 (Analyze extracted_text # calls, Inr (extracted_text, ai_analysis))))"

section \<open>app.py: the request handlers\<close>

text \<open>A JSON value, and a handler's result \<open>(jsonify(body), status)\<close>.\<close>

datatype json =
    JStr string
  | JBool bool
  | JInt int
  | JObj "(string \<times> json) list"
  | JArr "json list"

type_synonym response = "json \<times> nat"

text \<open>
  A Firestore document (\<open>doc.to_dict()\<close>, \<open>report_data\<close>) is a Python dict with string
  values: an association list in insertion order. \<open>AList.update\<close> is \<open>d[k] = v\<close>.
\<close>

type_synonym dict = "(string \<times> string) list"

definition json_of_dict :: "dict \<Rightarrow> json" where
  "json_of_dict d = JObj (map (\<lambda>(k, v). (k, JStr v)) d)"

definition error_body :: "string \<Rightarrow> json" where
  "error_body msg = JObj [(''error'', JStr msg)]"

text \<open>
  The global \<open>bucket\<close> and \<open>db\<close> are \<open>None\<close> when Firebase failed to initialise. Their
  methods are parameters: \<open>blob.upload_from_filename\<close> (blob path, local path; \<open>Some\<close> of
  the message when it raises), \<open>blob.generate_signed_url\<close>, writing a new document
  (\<open>document()\<close>, \<open>set\<close>, \<open>id\<close>), streaming a user's reports with a limit, and reading
  one document (\<open>None\<close> when \<open>doc.exists\<close> is false).
\<close>

record bucket_handle =
  upload_from_filename :: "string \<Rightarrow> string \<Rightarrow> exc option"
  blob_generate_signed_url :: "string \<Rightarrow> exc + string"

record db_handle =
  doc_set :: "string \<Rightarrow> dict \<Rightarrow> exc + string"
  query_stream :: "string \<Rightarrow> int \<Rightarrow> exc + (string \<times> dict) list"
  doc_get :: "string \<Rightarrow> string \<Rightarrow> exc + dict option"

text \<open>
  \<open>auth.verify_id_token(id_token, check_revoked=True)\<close> raises \<open>RevokedIdTokenError\<close>,
  raises another exception, or returns the decoded token, of which the handlers read
  \<open>uid\<close> only.
\<close>

datatype verify_outcome = Revoked | Rejected exc | Decoded string

text \<open>
  \<open>file.save(file_path)\<close> returns, or raises; when it raises, the flag says whether the
  destination file had been created already.
\<close>

datatype save_outcome = Saved | SaveFailed exc bool

text \<open>
  The environment of a request: the collaborators of \<open>utils.py\<close>, the two stores, the
  identity service, werkzeug's \<open>secure_filename\<close>, the values of \<open>uuid.uuid4()\<close> and of
  \<open>datetime.utcnow().isoformat()\<close>, the outcome of saving to a path, and Python's
  \<open>int\<close> on a string (\<open>None\<close> for ValueError).
\<close>

record 'img env =
  utils :: "'img services"
  bucket :: "bucket_handle option"
  db :: "db_handle option"
  verify_id_token :: "string \<Rightarrow> verify_outcome"
  secure_filename :: "string \<Rightarrow> string"
  uuid4 :: string
  utcnow_isoformat :: string
  file_save :: "string \<Rightarrow> save_outcome"
  py_int :: "string \<Rightarrow> int option"

text \<open>
  The request: the \<open>Authorization\<close> header, \<open>request.files['file']\<close> (absent, or present
  with its \<open>filename\<close>, which may be \<open>None\<close>), and the query parameters \<open>limit\<close> and
  \<open>user_id\<close>.
\<close>

record request =
  authorization :: "string option"
  files_file :: "string option option"
  arg_limit :: "string option"
  arg_user_id :: "string option"

definition UPLOAD_FOLDER :: string where
  "UPLOAD_FOLDER = ''uploads''"

text \<open>
  \<open>ALLOWED_EXTENSIONS\<close> is a Python set; the list fixes the order in which the error
  message of a disallowed upload names its elements, which Python leaves open.
\<close>

definition ALLOWED_EXTENSIONS :: "string list" where
  "ALLOWED_EXTENSIONS = [''pdf'', ''png'', ''jpg'', ''jpeg'', ''gif'']"

definition verify_firebase_token :: "'img env \<Rightarrow> string \<Rightarrow> exc + string" where
  "verify_firebase_token env id_token =
     (case verify_id_token env id_token of
        Decoded uid \<Rightarrow> Inr uid
      | Revoked \<Rightarrow> Inl ''Token has been revoked''
      | Rejected e \<Rightarrow> Inl (''Invalid authentication token: '' @ e))"

definition get_authenticated_user :: "'img env \<Rightarrow> request \<Rightarrow> exc + string" where
  "get_authenticated_user env req =
     (case authorization req of
        None \<Rightarrow> Inl ''Missing or invalid Authorization header''
      | Some auth_header \<Rightarrow>
          if auth_header = [] \<or> \<not> startswith auth_header ''Bearer ''
          then Inl ''Missing or invalid Authorization header''
          else verify_firebase_token env (before_sep ''Bearer '' (drop 7 auth_header)))"

definition allowed_file :: "string \<Rightarrow> bool" where
  "allowed_file filename =
     (case rsplit_dot filename of
        None \<Rightarrow> False
      | Some ext \<Rightarrow> lower ext \<in> set ALLOWED_EXTENSIONS)"

definition upload_to_firebase_storage ::
    "'img env \<Rightarrow> string \<Rightarrow> string \<Rightarrow> string \<Rightarrow> string" where
  "upload_to_firebase_storage env local_file_path filename user_id =
     (case bucket env of
        None \<Rightarrow> []
      | Some b \<Rightarrow>
          let blob_path = ''medical_reports/'' @ user_id @ ''/'' @ filename in
          (case upload_from_filename b blob_path local_file_path of
             Some e \<Rightarrow> []
           | None \<Rightarrow> blob_path))"

definition generate_signed_url :: "'img env \<Rightarrow> string \<Rightarrow> string" where
  "generate_signed_url env blob_path =
     (case bucket env of
        None \<Rightarrow> []
      | Some b \<Rightarrow>
          if blob_path = [] then []
          else (case blob_generate_signed_url b blob_path of
                  Inl e \<Rightarrow> []
                | Inr signed_url \<Rightarrow> signed_url))"

definition save_report_to_firestore :: "'img env \<Rightarrow> string \<Rightarrow> dict \<Rightarrow> exc + string" where
  "save_report_to_firestore env user_id report_data =
     (case db env of
        None \<Rightarrow> Inl (''Failed to save report to database: '' @ ''Database not available'')
      | Some d \<Rightarrow>
          (case doc_set d user_id report_data of
             Inl e \<Rightarrow> Inl (''Failed to save report to database: '' @ e)
           | Inr doc_id \<Rightarrow> Inr doc_id))"

text \<open>\<open>os.path.join(a, b)\<close> on POSIX.\<close>

definition os_path_join :: "string \<Rightarrow> string \<Rightarrow> string" where
  "os_path_join a b =
     (if startswith b ''/'' then b
      else if a = [] \<or> last a = CHR ''/'' then a @ b
      else a @ ''/'' @ b)"

text \<open>
  The local files are a set of paths. \<open>os_remove_existing\<close> is
  \<open>if os.path.exists(p): os.remove(p)\<close>, where removing an existing file succeeds.
\<close>

definition os_remove_existing :: "string \<Rightarrow> string set \<Rightarrow> string set" where
  "os_remove_existing p fs = (if p \<in> fs then fs - {p} else fs)"

definition unique_name :: "'img env \<Rightarrow> string \<Rightarrow> string" where
  "unique_name env original_filename = uuid4 env @ ''_'' @ original_filename"

definition temp_path :: "'img env \<Rightarrow> string \<Rightarrow> string" where
  "temp_path env original_filename =
     os_path_join UPLOAD_FOLDER (unique_name env original_filename)"

text \<open>Lines 275 to 280 of \<open>upload_file\<close>: the blob path, and the store call made.\<close>

definition stored_blob ::
    "'img env \<Rightarrow> string \<Rightarrow> string \<Rightarrow> string \<Rightarrow> string \<times> event list" where
  "stored_blob env file_path unique_filename user_id =
     (case bucket env of
        None \<Rightarrow> ([], [])
      | Some b \<Rightarrow>
          (upload_to_firebase_storage env file_path unique_filename user_id,
           [BlobUpload (''medical_reports/'' @ user_id @ ''/'' @ unique_filename) file_path]))"

definition report_data_of ::
    "'img env \<Rightarrow> string \<Rightarrow> string \<Rightarrow> string \<Rightarrow> string \<Rightarrow> string \<Rightarrow> dict" where
  "report_data_of env original_filename blob_path extracted_text ai_analysis user_id =
     [(''filename'', original_filename),
      (''blob_path'', blob_path),
      (''extracted_text'', extracted_text),
      (''ai_analysis'', ai_analysis),
      (''uploaded_at'', utcnow_isoformat env),
      (''user_id'', user_id)]"

text \<open>Lines 283 to 296 of \<open>upload_file\<close>: the report id, and the store call made.\<close>

definition saved_report :: "'img env \<Rightarrow> string \<Rightarrow> dict \<Rightarrow> string \<times> event list" where
  "saved_report env user_id report_data =
     (case db env of
        None \<Rightarrow> ([], [])
      | Some d \<Rightarrow>
          (case save_report_to_firestore env user_id report_data of
             Inl e \<Rightarrow> ([], [DocSet user_id report_data])
           | Inr report_id \<Rightarrow> (report_id, [DocSet user_id report_data])))"

definition success_body :: "string \<Rightarrow> string \<Rightarrow> string \<Rightarrow> string \<Rightarrow> json" where
  "success_body original_filename extracted_text ai_analysis report_id =
     JObj [(''success'', JBool True),
           (''filename'', JStr original_filename),
           (''extracted_text'', JStr extracted_text),
           (''ai_analysis'', JStr ai_analysis),
           (''report_id'', JStr report_id),
           (''message'', JStr ''File processed successfully'')]"

text \<open>
  \<open>upload_file\<close> from line 265 on, once \<open>file.save\<close> has returned: \<open>fs\<close> holds the
  temporary file.
\<close>

definition upload_file_saved ::
    "'img env \<Rightarrow> string \<Rightarrow> string \<Rightarrow> string \<Rightarrow> string set
       \<Rightarrow> response \<times> event list \<times> string set" where
  "upload_file_saved env user_id original_filename file_extension fs =
     (let unique_filename = unique_name env original_filename;
          file_path = temp_path env original_filename
      in
      (case process_uploaded_file (utils env) file_path file_extension of
         (calls, Inl e) \<Rightarrow>
           ((error_body (''Processing failed: '' @ e), 500), calls,
            os_remove_existing file_path fs)
       | (calls, Inr (extracted_text, ai_analysis)) \<Rightarrow>
           (case stored_blob env file_path unique_filename user_id of
              (blob_path, uploads) \<Rightarrow>
                (case saved_report env user_id
                        (report_data_of env original_filename blob_path extracted_text
                           ai_analysis user_id) of
                   (report_id, writes) \<Rightarrow>
                     ((success_body original_filename extracted_text ai_analysis report_id,
                       200),
                      calls @ uploads @ writes,
                      os_remove_existing file_path fs)))))"

definition upload_file ::
    "'img env \<Rightarrow> request \<Rightarrow> string set \<Rightarrow> response \<times> event list \<times> string set" where
  "upload_file env req fs =
     (case get_authenticated_user env req of
        Inl e \<Rightarrow> ((error_body e, 401), [], fs)
      | Inr user_id \<Rightarrow>
          (case files_file req of
             None \<Rightarrow> ((error_body ''No file provided'', 400), [], fs)
           | Some None \<Rightarrow> ((error_body ''No file selected'', 400), [], fs)
           | Some (Some filename) \<Rightarrow>
               if filename = [] then ((error_body ''No file selected'', 400), [], fs)
               else if \<not> allowed_file filename
               then ((error_body (''Invalid file type. Allowed types: ''
                        @ join '', '' ALLOWED_EXTENSIONS), 400), [], fs)
               else
                 let original_filename = secure_filename env filename in
                 (case rsplit_dot original_filename of
                    None \<Rightarrow>
                      ((error_body (''Upload failed: '' @ ''list index out of range''), 500),
                       [], fs)
                  | Some ext \<Rightarrow>
                      (case file_save env (temp_path env original_filename) of
                         SaveFailed e created \<Rightarrow>
                           ((error_body (''Upload failed: '' @ e), 500), [],
                            if created then insert (temp_path env original_filename) fs
                            else fs)
                       | Saved \<Rightarrow>
                           upload_file_saved env user_id original_filename (lower ext)
                             (insert (temp_path env original_filename) fs)))))"

text \<open>Lines 345 and 346 of \<open>get_user_reports\<close>.\<close>

definition get_limit :: "'img env \<Rightarrow> request \<Rightarrow> int" where
  "get_limit env req =
     (let limit = (case arg_limit req of
                     None \<Rightarrow> 50
                   | Some s \<Rightarrow> (case py_int env s of None \<Rightarrow> 50 | Some n \<Rightarrow> n))
      in min limit 100)"

text \<open>The body of the loops over the documents read: the id, and a fresh signed URL.\<close>

definition with_file_url :: "'img env \<Rightarrow> string \<Rightarrow> dict \<Rightarrow> dict" where
  "with_file_url env doc_id doc_data =
     (let report_data = AList.update ''report_id'' doc_id doc_data in
      (case map_of report_data ''blob_path'' of
         None \<Rightarrow> report_data
       | Some blob_path \<Rightarrow>
           if blob_path \<noteq> []
           then AList.update ''file_url'' (generate_signed_url env blob_path) report_data
           else report_data))"

definition unauthorized_msg :: string where
  "unauthorized_msg = ''Unauthorized: You can only access your own reports''"

definition get_user_reports ::
    "'img env \<Rightarrow> request \<Rightarrow> string \<Rightarrow> response \<times> event list" where
  "get_user_reports env req user_id =
     (case get_authenticated_user env req of
        Inl e \<Rightarrow> ((error_body e, 401), [])
      | Inr authenticated_uid \<Rightarrow>
          if authenticated_uid \<noteq> user_id then ((error_body unauthorized_msg, 403), [])
          else
            (case db env of
               None \<Rightarrow> ((error_body ''Database not available'', 503), [])
             | Some d \<Rightarrow>
                 let limit = get_limit env req in
                 (case query_stream d user_id limit of
                    Inl e \<Rightarrow>
                      ((error_body (''Failed to retrieve reports: '' @ e), 500),
                       [QueryStream user_id limit])
                  | Inr docs \<Rightarrow>
                      let reports = map (\<lambda>(doc_id, doc_data). with_file_url env doc_id doc_data)
                                      docs
                      in ((JObj [(''success'', JBool True),
                                 (''user_id'', JStr user_id),
                                 (''count'', JInt (int (length reports))),
                                 (''reports'', JArr (map json_of_dict reports))], 200),
                          [QueryStream user_id limit]))))"

definition get_report_detail ::
    "'img env \<Rightarrow> request \<Rightarrow> string \<Rightarrow> response \<times> event list" where
  "get_report_detail env req report_id =
     (case get_authenticated_user env req of
        Inl e \<Rightarrow> ((error_body e, 401), [])
      | Inr authenticated_uid \<Rightarrow>
          (case db env of
             None \<Rightarrow> ((error_body ''Database not available'', 503), [])
           | Some d \<Rightarrow>
               (case arg_user_id req of
                  None \<Rightarrow> ((error_body ''user_id parameter is required'', 400), [])
                | Some user_id \<Rightarrow>
                    if user_id = []
                    then ((error_body ''user_id parameter is required'', 400), [])
                    else if authenticated_uid \<noteq> user_id
                    then ((error_body unauthorized_msg, 403), [])
                    else
                      (case doc_get d user_id report_id of
                         Inl e \<Rightarrow>
                           ((error_body (''Failed to retrieve report: '' @ e), 500),
                            [DocGet user_id report_id])
                       | Inr None \<Rightarrow>
                           ((error_body ''Report not found'', 404),
                            [DocGet user_id report_id])
                       | Inr (Some doc_data) \<Rightarrow>
                           ((JObj [(''success'', JBool True),
                                   (''report'',
                                    json_of_dict (with_file_url env report_id doc_data))],
                             200),
                            [DocGet user_id report_id])))))"

section \<open>Example environments\<close>

text \<open>
  Concrete collaborators on which the theorems below are instantiated. An image is
  represented by the text OCR reads from it.
\<close>

definition demo_services :: "string services" where
  "demo_services =
     \<lparr>convert_from_path = (\<lambda>p. Inr [''Hb 13.5 g/dL'', ''   '', ''WBC 7000'']),
      image_open = (\<lambda>p. Inr ''  Glucose 95 mg/dL ''),
      image_to_string = (\<lambda>img. Inr img),
      generate_content = (\<lambda>prompt. Inr (Some ''All values are in range.''))\<rparr>"

definition one_page_services :: "string services" where
  "one_page_services = demo_services\<lparr>convert_from_path := (\<lambda>p. Inr [''A''])\<rparr>"

definition blank_scan_services :: "string services" where
  "blank_scan_services = demo_services\<lparr>image_open := (\<lambda>p. Inr '' .  '')\<rparr>"

definition quota_services :: "string services" where
  "quota_services =
     demo_services\<lparr>generate_content := (\<lambda>prompt. Inl ''429 Quota exceeded'')\<rparr>"

definition demo_bucket :: bucket_handle where
  "demo_bucket =
     \<lparr>upload_from_filename = (\<lambda>blob_path local_path. None),
      blob_generate_signed_url = (\<lambda>blob_path. Inr (''https://signed.example/'' @ blob_path))\<rparr>"

definition demo_db :: db_handle where
  "demo_db =
     \<lparr>doc_set = (\<lambda>user_id report_data. Inr ''r1''),
      query_stream = (\<lambda>user_id limit. Inr []),
      doc_get = (\<lambda>user_id report_id. Inr None)\<rparr>"

definition demo_env :: "string env" where
  "demo_env =
     \<lparr>utils = demo_services,
      bucket = Some demo_bucket,
      db = Some demo_db,
      verify_id_token = (\<lambda>t. if t = ''tok-bob'' then Decoded ''bob'' else Rejected ''bad token''),
      secure_filename = (\<lambda>f. f),
      uuid4 = ''1b4e28ba'',
      utcnow_isoformat = ''2024-01-01T00:00:00'',
      file_save = (\<lambda>p. Saved),
      py_int = (\<lambda>s. if s = ''-5'' then Some (- 5) else None)\<rparr>"

text \<open>The object store rejects the upload and the document store rejects the write.\<close>

definition degraded_env :: "string env" where
  "degraded_env =
     demo_env\<lparr>bucket := Some (demo_bucket\<lparr>upload_from_filename :=
                                (\<lambda>blob_path local_path. Some ''503 backend error'')\<rparr>),
              db := Some (demo_db\<lparr>doc_set := (\<lambda>user_id report_data. Inl ''deadline exceeded'')\<rparr>)\<rparr>"

text \<open>Firebase failed to initialise: both globals are \<open>None\<close>.\<close>

definition offline_env :: "string env" where
  "offline_env = demo_env\<lparr>bucket := None, db := None\<rparr>"

definition upload_request :: request where
  "upload_request =
     \<lparr>authorization = Some ''Bearer tok-bob'',
      files_file = Some (Some ''scan.png''),
      arg_limit = None,
      arg_user_id = None\<rparr>"

definition list_request :: request where
  "list_request =
     \<lparr>authorization = Some ''Bearer tok-bob'',
      files_file = None,
      arg_limit = Some ''-5'',
      arg_user_id = None\<rparr>"

definition detail_request :: request where
  "detail_request =
     \<lparr>authorization = Some ''Bearer tok-bob'',
      files_file = None,
      arg_limit = None,
      arg_user_id = Some ''alice''\<rparr>"

section \<open>Facts about the string functions\<close>

lemma strip_Nil: "strip [] = []"
  by (simp add: strip_def)

lemma strip_all_space: "\<forall>c\<in>set s. is_space c \<Longrightarrow> strip s = []"
proof -
  assume "\<forall>c\<in>set s. is_space c"
  then have d: "dropWhile is_space s = []"
    by (simp add: dropWhile_eq_Nil_conv)
  show ?thesis
    unfolding strip_def d by simp
qed

lemma strip_keep:
  assumes "s \<noteq> []" and "\<not> is_space (hd s)" and "\<not> is_space (last s)"
  shows "strip s = s"
proof -
  have left: "dropWhile is_space s = s"
    using assms by (simp add: dropWhile_eq_self_iff)
  have right: "dropWhile is_space (rev s) = rev s"
    using assms by (simp add: dropWhile_eq_self_iff hd_rev)
  show ?thesis
    by (simp add: strip_def left right)
qed

section \<open>The text extractor\<close>

lemma pdf_pages_ok:
  "map (image_to_string sv) images = map Inr ts \<Longrightarrow>
   pdf_pages sv i images acc =
     Inr (acc @ map (\<lambda>(k, t). page_section k t)
                  (filter (\<lambda>(k, t). strip t \<noteq> []) (enumerate i ts)))"
proof (induction images arbitrary: i acc ts)
  case Nil
  then show ?case by simp
next
  case (Cons img images)
  then obtain t ts' where ts: "ts = t # ts'" and t: "image_to_string sv img = Inr t"
    and rest: "map (image_to_string sv) images = map Inr ts'"
    by (cases ts) auto
  show ?case
    using Cons.IH [OF rest, of "Suc i"] by (simp add: t ts)
qed

text \<open>
  C1 (as amended). When the conversion of the PDF succeeds and its pages OCR to the texts
  \<open>ts\<close>, the extractor returns the sections of exactly the pages whose trimmed text is
  not empty, in ascending page order. A section is the marker \<open>--- Page i ---\<close> with the
  1-based page number, one newline, and the trimmed text of the page; consecutive
  sections are separated by a blank line. Pages that are empty or all whitespace
  contribute nothing.
\<close>

theorem pdf_pages_joined:
  assumes "convert_from_path sv pdf_path = Inr images"
    and "map (image_to_string sv) images = map Inr ts"
  shows "extract_text_from_pdf sv pdf_path =
     Inr (join ''\<newline>\<newline>''
            (map (\<lambda>(i, t). ''--- Page '' @ str_nat (i + 1) @ '' ---\<newline>'' @ strip t)
               (filter (\<lambda>(i, t). strip t \<noteq> []) (enumerate 0 ts))))"
  using assms pdf_pages_ok [of sv images ts 0 "[]"]
  by (simp add: extract_text_from_pdf_def page_section_def)

theorem pdf_pages_joined_witness:
  "convert_from_path demo_services ''report.pdf'' = Inr [''Hb 13.5 g/dL'', ''   '', ''WBC 7000'']
   \<and> map (image_to_string demo_services) [''Hb 13.5 g/dL'', ''   '', ''WBC 7000'']
       = map Inr [''Hb 13.5 g/dL'', ''   '', ''WBC 7000'']
   \<and> extract_text_from_pdf demo_services ''report.pdf''
       = Inr ''--- Page 1 ---\<newline>Hb 13.5 g/dL\<newline>\<newline>--- Page 3 ---\<newline>WBC 7000''"
proof -
  have h1: "convert_from_path demo_services ''report.pdf''
      = Inr [''Hb 13.5 g/dL'', ''   '', ''WBC 7000'']"
    by (simp add: demo_services_def)
  have h2: "map (image_to_string demo_services) [''Hb 13.5 g/dL'', ''   '', ''WBC 7000'']
      = map Inr [''Hb 13.5 g/dL'', ''   '', ''WBC 7000'']"
    by (simp add: demo_services_def)
  have r: "join ''\<newline>\<newline>''
        (map (\<lambda>(i, t). ''--- Page '' @ str_nat (i + 1) @ '' ---\<newline>'' @ strip t)
           (filter (\<lambda>(i, t). strip t \<noteq> [])
              (enumerate 0 [''Hb 13.5 g/dL'', ''   '', ''WBC 7000''])))
      = ''--- Page 1 ---\<newline>Hb 13.5 g/dL\<newline>\<newline>--- Page 3 ---\<newline>WBC 7000''"
    by code_simp
  have "extract_text_from_pdf demo_services ''report.pdf''
      = Inr ''--- Page 1 ---\<newline>Hb 13.5 g/dL\<newline>\<newline>--- Page 3 ---\<newline>WBC 7000''"
    using pdf_pages_joined [OF h1 h2] unfolding r .
  with h1 h2 show ?thesis by blast
qed

text \<open>
  C1 as stated puts a blank line after the marker (or after each section). The output
  for a PDF of one page reading \<open>A\<close> is the marker, one newline and \<open>A\<close>: it has no blank
  line anywhere.
\<close>

theorem pdf_blank_line_counterexample:
  "extract_text_from_pdf one_page_services ''report.pdf'' = Inr ''--- Page 1 ---\<newline>A''
   \<and> \<not> contains ''\<newline>\<newline>'' ''--- Page 1 ---\<newline>A''"
  by code_simp

section \<open>The file pipeline\<close>

text \<open>
  C2. When the extractor picked by the extension returns a text that is empty or has
  fewer than 5 characters once trimmed, \<open>process_uploaded_file\<close> returns normally the
  pair of the empty string and the fixed message, and makes no call: neither the
  analysis function nor the generation service is invoked.
\<close>

theorem no_text_short_circuit:
  assumes "extract_by_extension sv file_path file_extension = Inr extracted_text"
    and "extracted_text = [] \<or> length (strip extracted_text) < 5"
  shows "process_uploaded_file sv file_path file_extension = ([], Inr ([], no_text_msg))"
  using assms by (auto simp add: process_uploaded_file_def)

theorem no_text_short_circuit_witness:
  "extract_by_extension blank_scan_services ''uploads/x_scan.png'' ''PNG'' = Inr ''.''
   \<and> (''.'' = [] \<or> length (strip ''.'') < 5)
   \<and> process_uploaded_file blank_scan_services ''uploads/x_scan.png'' ''PNG''
       = ([], Inr ([], no_text_msg))"
proof -
  have h1: "extract_by_extension blank_scan_services ''uploads/x_scan.png'' ''PNG'' = Inr ''.''"
    by code_simp
  have h2: "''.'' = [] \<or> length (strip ''.'') < 5"
    by code_simp
  from no_text_short_circuit [OF h1 h2] h1 h2 show ?thesis by blast
qed

section \<open>The analysis generator\<close>

text \<open>
  C3. A text whose trimmed length is under 10 characters makes the analysis function
  return the fixed insufficient-text message as a normal result, and the generation
  service is not invoked.
\<close>

theorem insufficient_text:
  "length (strip extracted_text) < 10 \<Longrightarrow>
   analyze_medical_text_with_ai sv extracted_text = ([], Inr insufficient_text_msg)"
  by (simp add: analyze_medical_text_with_ai_def)

theorem insufficient_text_witness:
  "length (strip ''  Hb 13  '') < 10
   \<and> analyze_medical_text_with_ai demo_services ''  Hb 13  '' = ([], Inr insufficient_text_msg)"
proof -
  have h: "length (strip ''  Hb 13  '') < 10"
    by code_simp
  from insufficient_text [OF h] h show ?thesis by blast
qed

text \<open>
  C4 (as amended). A text that passes the insufficient-text guard (trimmed length at
  least 10) makes the analysis function invoke the generation service exactly once. The
  text placed in the prompt is the first 15,000 characters followed by the truncation
  marker when the text is longer than 15,000 characters, and the text unmodified
  otherwise.
\<close>

theorem truncation_policy:
  assumes "10 \<le> length (strip extracted_text)"
  shows "fst (analyze_medical_text_with_ai sv extracted_text) =
     [Generate (user_prompt
        (if 15000 < length extracted_text
         then take 15000 extracted_text @ ''\<newline>...[Text truncated due to length]''
         else extracted_text))]"
proof -
  from assms have "extracted_text \<noteq> []"
    by (auto simp: strip_Nil)
  with assms show ?thesis
    by (simp add: analyze_medical_text_with_ai_def Let_def MAX_CHARS_def truncation_marker_def
        split: sum.splits option.splits)
qed

theorem truncation_policy_witness:
  "10 \<le> length (strip (replicate 15001 CHR ''a''))
   \<and> fst (analyze_medical_text_with_ai demo_services (replicate 15001 CHR ''a'')) =
       [Generate (user_prompt
          (replicate 15000 CHR ''a'' @ ''\<newline>...[Text truncated due to length]''))]"
proof -
  have "strip (replicate 15001 CHR ''a'') = replicate 15001 CHR ''a''"
    by (rule strip_keep) (simp_all add: is_space_def)
  then have h: "10 \<le> length (strip (replicate 15001 CHR ''a''))"
    by simp
  from truncation_policy [OF h, of demo_services] h show ?thesis
    by simp
qed

text \<open>
  C4 as stated has the service invoked for every text longer than 15,000 characters. A
  text of 15,001 spaces is that long, and the guard returns before any call is made.
\<close>

theorem truncation_counterexample:
  "15000 < length (replicate 15001 CHR '' '')
   \<and> analyze_medical_text_with_ai demo_services (replicate 15001 CHR '' '')
       = ([], Inr insufficient_text_msg)"
proof -
  have "strip (replicate 15001 CHR '' '') = []"
    by (rule strip_all_space) (simp add: is_space_def)
  then show ?thesis
    by (simp add: analyze_medical_text_with_ai_def)
qed

text \<open>
  C6. When the generation service raises, the analysis function tests the lower-cased
  message, in this order: \<open>quota\<close> or \<open>rate\<close> gives the fixed temporarily-unavailable
  string; else \<open>invalid\<close> together with \<open>api\<close> gives the fixed configuration-error
  string; else \<open>token\<close> or \<open>length\<close> gives the fixed document-too-large string; each as
  a normal result. A message with none of these is raised again as the analysis-failed
  error, which carries the original message.
\<close>

theorem service_failure_classified:
  assumes "10 \<le> length (strip extracted_text)"
    and "generate_content sv (user_prompt
           (if MAX_CHARS < length extracted_text
            then take MAX_CHARS extracted_text @ truncation_marker
            else extracted_text)) = Inl e"
  shows "snd (analyze_medical_text_with_ai sv extracted_text) =
     (if contains ''quota'' (lower e) \<or> contains ''rate'' (lower e)
      then Inr ''Service temporarily unavailable due to high demand. Please try again in a few moments.''
      else if contains ''invalid'' (lower e) \<and> contains ''api'' (lower e)
      then Inr ''API configuration error. Please contact support.''
      else if contains ''token'' (lower e) \<or> contains ''length'' (lower e)
      then Inr ''Document is too large to analyze. Please try a shorter document or split it into sections.''
      else Inl (''Failed to analyze medical text with AI: '' @ e))"
proof -
  from assms(1) have "extracted_text \<noteq> []"
    by (auto simp: strip_Nil)
  with assms show ?thesis
    by (simp add: analyze_medical_text_with_ai_def Let_def unavailable_msg_def
        config_error_msg_def too_large_msg_def)
qed

theorem service_failure_classified_witness:
  "10 \<le> length (strip ''Glucose 95 mg/dL'')
   \<and> generate_content quota_services (user_prompt
         (if MAX_CHARS < length ''Glucose 95 mg/dL''
          then take MAX_CHARS ''Glucose 95 mg/dL'' @ truncation_marker
          else ''Glucose 95 mg/dL'')) = Inl ''429 Quota exceeded''
   \<and> snd (analyze_medical_text_with_ai quota_services ''Glucose 95 mg/dL'') =
       Inr ''Service temporarily unavailable due to high demand. Please try again in a few moments.''"
proof -
  have h1: "10 \<le> length (strip ''Glucose 95 mg/dL'')"
    by code_simp
  have h2: "generate_content quota_services (user_prompt
         (if MAX_CHARS < length ''Glucose 95 mg/dL''
          then take MAX_CHARS ''Glucose 95 mg/dL'' @ truncation_marker
          else ''Glucose 95 mg/dL'')) = Inl ''429 Quota exceeded''"
    by (simp add: quota_services_def demo_services_def)
  have c: "contains ''quota'' (lower ''429 Quota exceeded'')"
    by code_simp
  from service_failure_classified [OF h1 h2] c h1 h2 show ?thesis
    by simp
qed

section \<open>The request handlers\<close>

lemma verify_ignores_db:
  "verify_firebase_token (env\<lparr>db := store\<rparr>) id_token = verify_firebase_token env id_token"
  by (simp add: verify_firebase_token_def)

lemma auth_ignores_db:
  "get_authenticated_user (env\<lparr>db := store\<rparr>) req = get_authenticated_user env req"
  by (simp add: get_authenticated_user_def verify_ignores_db split: option.splits)

lemma os_remove_existing_eq: "os_remove_existing p fs = fs - {p}"
  by (auto simp: os_remove_existing_def)

lemma upload_file_reaches_saved:
  assumes "get_authenticated_user env req = Inr user_id"
    and "files_file req = Some (Some filename)"
    and "filename \<noteq> []"
    and "allowed_file filename"
    and "rsplit_dot (secure_filename env filename) = Some ext"
    and "file_save env (temp_path env (secure_filename env filename)) = Saved"
  shows "upload_file env req fs =
     upload_file_saved env user_id (secure_filename env filename) (lower ext)
       (insert (temp_path env (secure_filename env filename)) fs)"
  using assms by (simp add: upload_file_def Let_def)

lemma upload_file_saved_files:
  "snd (snd (upload_file_saved env user_id original_filename file_extension fs)) =
     fs - {temp_path env original_filename}"
  by (simp add: upload_file_saved_def Let_def os_remove_existing_eq
      split: prod.splits sum.splits)

lemma upload_file_saved_status:
  "snd (fst (upload_file_saved env user_id original_filename file_extension fs)) =
     (case snd (process_uploaded_file (utils env) (temp_path env original_filename)
                  file_extension) of
        Inl e \<Rightarrow> 500
      | Inr r \<Rightarrow> 200)"
  by (simp add: upload_file_saved_def Let_def split: prod.splits sum.splits)

lemma upload_file_rejected:
  assumes "(\<exists>e. get_authenticated_user env req = Inl e)
      \<or> files_file req = None \<or> files_file req = Some None \<or> files_file req = Some (Some [])
      \<or> (\<exists>filename. files_file req = Some (Some filename) \<and> \<not> allowed_file filename)"
  shows "snd (snd (upload_file env req fs)) = fs \<and> snd (fst (upload_file env req fs)) \<in> {400, 401}"
  using assms by (auto simp add: upload_file_def split: sum.splits option.splits)

text \<open>
  C5. An upload request that has passed authentication and validation, whose file was
  saved and whose processing returned a text and an analysis, is answered with status
  200 and a body carrying that text and that analysis. When the object store is
  unavailable or its upload raises, \<open>upload_to_firebase_storage\<close> returns the empty
  string and the blob path of the report is empty; when the document store is
  unavailable or its write raises, the report id of the response is empty. When the
  document store is available, the report written to it holds that blob path.
\<close>

theorem graceful_degradation:
  assumes "get_authenticated_user env req = Inr user_id"
    and "files_file req = Some (Some filename)"
    and "filename \<noteq> []"
    and "allowed_file filename"
    and "rsplit_dot (secure_filename env filename) = Some ext"
    and "file_save env (temp_path env (secure_filename env filename)) = Saved"
    and "process_uploaded_file (utils env) (temp_path env (secure_filename env filename))
           (lower ext) = (calls, Inr (extracted_text, ai_analysis))"
  shows "let original_filename = secure_filename env filename;
             file_path = temp_path env original_filename;
             unique_filename = unique_name env original_filename;
             blob_path = fst (stored_blob env file_path unique_filename user_id);
             report_data = report_data_of env original_filename blob_path extracted_text
                             ai_analysis user_id;
             report_id = fst (saved_report env user_id report_data)
         in fst (upload_file env req fs) =
              (JObj [(''success'', JBool True),
                     (''filename'', JStr original_filename),
                     (''extracted_text'', JStr extracted_text),
                     (''ai_analysis'', JStr ai_analysis),
                     (''report_id'', JStr report_id),
                     (''message'', JStr ''File processed successfully'')], 200)
          \<and> (bucket env = None
               \<or> (\<exists>b e. bucket env = Some b
                    \<and> upload_from_filename b
                          (''medical_reports/'' @ user_id @ ''/'' @ unique_filename) file_path
                        = Some e)
              \<longrightarrow> upload_to_firebase_storage env file_path unique_filename user_id = []
                  \<and> blob_path = [])
          \<and> (db env = None \<or> (\<exists>d e. db env = Some d \<and> doc_set d user_id report_data = Inl e)
              \<longrightarrow> report_id = [])
          \<and> (db env \<noteq> None
              \<longrightarrow> DocSet user_id report_data \<in> set (fst (snd (upload_file env req fs))))"
proof -
  have reach: "upload_file env req fs =
      upload_file_saved env user_id (secure_filename env filename) (lower ext)
        (insert (temp_path env (secure_filename env filename)) fs)"
    using assms(1-6) by (rule upload_file_reaches_saved)
  show ?thesis
    unfolding reach Let_def
    by (auto simp add: upload_file_saved_def assms(7) Let_def success_body_def stored_blob_def
        saved_report_def upload_to_firebase_storage_def save_report_to_firestore_def
        split: option.splits sum.splits prod.splits)
qed

theorem graceful_degradation_witness:
  "get_authenticated_user degraded_env upload_request = Inr ''bob''
   \<and> files_file upload_request = Some (Some ''scan.png'')
   \<and> allowed_file ''scan.png''
   \<and> rsplit_dot (secure_filename degraded_env ''scan.png'') = Some ''png''
   \<and> file_save degraded_env (temp_path degraded_env (secure_filename degraded_env ''scan.png''))
       = Saved
   \<and> snd (process_uploaded_file (utils degraded_env)
             (temp_path degraded_env (secure_filename degraded_env ''scan.png'')) (lower ''png''))
       = Inr (''Glucose 95 mg/dL'', ''All values are in range.'')
   \<and> fst (upload_file degraded_env upload_request {}) =
       (JObj [(''success'', JBool True),
              (''filename'', JStr ''scan.png''),
              (''extracted_text'', JStr ''Glucose 95 mg/dL''),
              (''ai_analysis'', JStr ''All values are in range.''),
              (''report_id'', JStr []),
              (''message'', JStr ''File processed successfully'')], 200)
   \<and> DocSet ''bob''
         [(''filename'', ''scan.png''),
          (''blob_path'', []),
          (''extracted_text'', ''Glucose 95 mg/dL''),
          (''ai_analysis'', ''All values are in range.''),
          (''uploaded_at'', ''2024-01-01T00:00:00''),
          (''user_id'', ''bob'')]
       \<in> set (fst (snd (upload_file degraded_env upload_request {})))"
proof -
  have h1: "get_authenticated_user degraded_env upload_request = Inr ''bob''"
    by code_simp
  have h2: "files_file upload_request = Some (Some ''scan.png'')"
    by (simp add: upload_request_def)
  have h3: "''scan.png'' \<noteq> []"
    by simp
  have h4: "allowed_file ''scan.png''"
    by code_simp
  have h5: "rsplit_dot (secure_filename degraded_env ''scan.png'') = Some ''png''"
    by code_simp
  have h6: "file_save degraded_env (temp_path degraded_env (secure_filename degraded_env ''scan.png''))
      = Saved"
    by code_simp
  have p: "snd (process_uploaded_file (utils degraded_env)
             (temp_path degraded_env (secure_filename degraded_env ''scan.png'')) (lower ''png''))
      = Inr (''Glucose 95 mg/dL'', ''All values are in range.'')"
    by code_simp
  then have h7: "process_uploaded_file (utils degraded_env)
             (temp_path degraded_env (secure_filename degraded_env ''scan.png'')) (lower ''png'')
      = (fst (process_uploaded_file (utils degraded_env)
             (temp_path degraded_env (secure_filename degraded_env ''scan.png'')) (lower ''png'')),
         Inr (''Glucose 95 mg/dL'', ''All values are in range.''))"
    by (metis prod.collapse)
  have e1: "secure_filename degraded_env ''scan.png'' = ''scan.png''"
    by code_simp
  have e2: "fst (saved_report degraded_env ''bob''
        (report_data_of degraded_env ''scan.png''
           (fst (stored_blob degraded_env (temp_path degraded_env ''scan.png'')
                   (unique_name degraded_env ''scan.png'') ''bob''))
           ''Glucose 95 mg/dL'' ''All values are in range.'' ''bob'')) = []"
    by code_simp
  have e3: "report_data_of degraded_env ''scan.png''
        (fst (stored_blob degraded_env (temp_path degraded_env ''scan.png'')
                (unique_name degraded_env ''scan.png'') ''bob''))
        ''Glucose 95 mg/dL'' ''All values are in range.'' ''bob'' =
      [(''filename'', ''scan.png''),
       (''blob_path'', []),
       (''extracted_text'', ''Glucose 95 mg/dL''),
       (''ai_analysis'', ''All values are in range.''),
       (''uploaded_at'', ''2024-01-01T00:00:00''),
       (''user_id'', ''bob'')]"
    by code_simp
  have e4: "db degraded_env \<noteq> None"
    by (simp add: degraded_env_def)
  note inst = graceful_degradation [OF h1 h2 h3 h4 h5 h6 h7, of "{}", unfolded Let_def e1]
  from inst
  have response: "fst (upload_file degraded_env upload_request {}) =
       (JObj [(''success'', JBool True),
              (''filename'', JStr ''scan.png''),
              (''extracted_text'', JStr ''Glucose 95 mg/dL''),
              (''ai_analysis'', JStr ''All values are in range.''),
              (''report_id'', JStr []),
              (''message'', JStr ''File processed successfully'')], 200)"
    by (simp add: e2)
  from inst e4
  have written: "DocSet ''bob''
         [(''filename'', ''scan.png''),
          (''blob_path'', []),
          (''extracted_text'', ''Glucose 95 mg/dL''),
          (''ai_analysis'', ''All values are in range.''),
          (''uploaded_at'', ''2024-01-01T00:00:00''),
          (''user_id'', ''bob'')]
       \<in> set (fst (snd (upload_file degraded_env upload_request {})))"
    unfolding e3 by blast
  from h1 h2 h4 h5 h6 p response written show ?thesis
    by blast
qed

text \<open>
  C8. When an upload request passes authentication and validation and its file is
  saved, the temporary file is absent from the local files when the handler returns,
  and no other file is touched; the status is 500 when processing fails and 200
  otherwise, whatever the object store and the document store do. When the request is
  rejected before saving (authentication fails, the file is missing or unnamed, or the
  extension is not allowed), the local files are unchanged and the status is 400 or 401.
\<close>

theorem temp_file_removed:
  "(get_authenticated_user env req = Inr user_id
      \<and> files_file req = Some (Some filename) \<and> filename \<noteq> [] \<and> allowed_file filename
      \<and> rsplit_dot (secure_filename env filename) = Some ext
      \<and> file_save env (temp_path env (secure_filename env filename)) = Saved
    \<longrightarrow> temp_path env (secure_filename env filename) \<notin> snd (snd (upload_file env req fs))
        \<and> snd (snd (upload_file env req fs)) = fs - {temp_path env (secure_filename env filename)}
        \<and> snd (fst (upload_file env req fs)) =
            (case snd (process_uploaded_file (utils env)
                         (temp_path env (secure_filename env filename)) (lower ext)) of
               Inl e \<Rightarrow> 500
             | Inr r \<Rightarrow> 200))
   \<and> ((\<exists>e. get_authenticated_user env req = Inl e)
        \<or> files_file req = None \<or> files_file req = Some None \<or> files_file req = Some (Some [])
        \<or> (\<exists>name. files_file req = Some (Some name) \<and> \<not> allowed_file name)
      \<longrightarrow> snd (snd (upload_file env req fs)) = fs
          \<and> snd (fst (upload_file env req fs)) \<in> {400, 401})"
proof (intro conjI impI)
  assume a: "get_authenticated_user env req = Inr user_id
      \<and> files_file req = Some (Some filename) \<and> filename \<noteq> [] \<and> allowed_file filename
      \<and> rsplit_dot (secure_filename env filename) = Some ext
      \<and> file_save env (temp_path env (secure_filename env filename)) = Saved"
  then have reach: "upload_file env req fs =
      upload_file_saved env user_id (secure_filename env filename) (lower ext)
        (insert (temp_path env (secure_filename env filename)) fs)"
    by (intro upload_file_reaches_saved) simp_all
  show files: "snd (snd (upload_file env req fs)) = fs - {temp_path env (secure_filename env filename)}"
    unfolding reach upload_file_saved_files by simp
  show "temp_path env (secure_filename env filename) \<notin> snd (snd (upload_file env req fs))"
    unfolding files by simp
  show "snd (fst (upload_file env req fs)) =
      (case snd (process_uploaded_file (utils env)
                   (temp_path env (secure_filename env filename)) (lower ext)) of
         Inl e \<Rightarrow> 500
       | Inr r \<Rightarrow> 200)"
    unfolding reach by (rule upload_file_saved_status)
next
  assume r: "(\<exists>e. get_authenticated_user env req = Inl e)
        \<or> files_file req = None \<or> files_file req = Some None \<or> files_file req = Some (Some [])
        \<or> (\<exists>name. files_file req = Some (Some name) \<and> \<not> allowed_file name)"
  from upload_file_rejected [OF r, of fs]
  show "snd (snd (upload_file env req fs)) = fs"
    and "snd (fst (upload_file env req fs)) \<in> {400, 401}"
    by simp_all
qed

theorem temp_file_removed_witness:
  "(get_authenticated_user demo_env upload_request = Inr ''bob''
      \<and> files_file upload_request = Some (Some ''scan.png'')
      \<and> allowed_file ''scan.png''
      \<and> rsplit_dot (secure_filename demo_env ''scan.png'') = Some ''png''
      \<and> file_save demo_env (temp_path demo_env (secure_filename demo_env ''scan.png'')) = Saved
      \<and> temp_path demo_env (secure_filename demo_env ''scan.png'')
          \<notin> snd (snd (upload_file demo_env upload_request {''uploads/other.pdf''})))
   \<and> (files_file (upload_request\<lparr>files_file := Some (Some ''notes.txt'')\<rparr>)
        = Some (Some ''notes.txt'')
      \<and> \<not> allowed_file ''notes.txt''
      \<and> snd (snd (upload_file demo_env (upload_request\<lparr>files_file := Some (Some ''notes.txt'')\<rparr>)
                     {''uploads/other.pdf''})) = {''uploads/other.pdf''})"
proof -
  have h1: "get_authenticated_user demo_env upload_request = Inr ''bob''"
    by code_simp
  have h2: "files_file upload_request = Some (Some ''scan.png'')"
    by (simp add: upload_request_def)
  have h3: "''scan.png'' \<noteq> []"
    by simp
  have h4: "allowed_file ''scan.png''"
    by code_simp
  have h5: "rsplit_dot (secure_filename demo_env ''scan.png'') = Some ''png''"
    by code_simp
  have h6: "file_save demo_env (temp_path demo_env (secure_filename demo_env ''scan.png'')) = Saved"
    by code_simp
  have g1: "files_file (upload_request\<lparr>files_file := Some (Some ''notes.txt'')\<rparr>)
      = Some (Some ''notes.txt'')"
    by simp
  have g2: "\<not> allowed_file ''notes.txt''"
    by code_simp
  from temp_file_removed [of demo_env upload_request "''bob''" "''scan.png''" "''png''"
      "{''uploads/other.pdf''}"] h1 h2 h3 h4 h5 h6
  have created: "temp_path demo_env (secure_filename demo_env ''scan.png'')
      \<notin> snd (snd (upload_file demo_env upload_request {''uploads/other.pdf''}))"
    by blast
  from temp_file_removed [of demo_env "upload_request\<lparr>files_file := Some (Some ''notes.txt'')\<rparr>"
      "''bob''" "''scan.png''" "''png''" "{''uploads/other.pdf''}"] g1 g2
  have rejected: "snd (snd (upload_file demo_env
      (upload_request\<lparr>files_file := Some (Some ''notes.txt'')\<rparr>) {''uploads/other.pdf''}))
      = {''uploads/other.pdf''}"
    by blast
  from h1 h2 h4 h5 h6 g1 g2 created rejected show ?thesis
    by blast
qed

text \<open>
  C7 (as amended). Let the credential of a request be valid for a subject other than
  \<open>A\<close>. Listing the reports of \<open>A\<close> is answered 403 with the fixed error body, whatever
  the document store is. Fetching a report with query \<open>user_id = A\<close> is answered 503 when
  the document store is unavailable; when it is available the answer is 403 with the
  same fixed body, or 400 when \<open>A\<close> is the empty string, whatever the store holds. In
  none of these cases is the store read.
\<close>

theorem cross_user_denied:
  assumes "get_authenticated_user env req = Inr authenticated_uid"
    and "authenticated_uid \<noteq> A"
  shows "get_user_reports (env\<lparr>db := store\<rparr>) req A =
           ((JObj [(''error'', JStr ''Unauthorized: You can only access your own reports'')],
             403), [])
       \<and> (arg_user_id req = Some A \<longrightarrow>
            get_report_detail (env\<lparr>db := None\<rparr>) req report_id =
              ((JObj [(''error'', JStr ''Database not available'')], 503), [])
          \<and> get_report_detail (env\<lparr>db := Some d\<rparr>) req report_id =
              (if A = []
               then ((JObj [(''error'', JStr ''user_id parameter is required'')], 400), [])
               else ((JObj [(''error'',
                              JStr ''Unauthorized: You can only access your own reports'')],
                      403), [])))"
  using assms
  by (simp add: get_user_reports_def get_report_detail_def error_body_def unauthorized_msg_def
      auth_ignores_db)

theorem cross_user_denied_witness:
  "get_authenticated_user demo_env detail_request = Inr ''bob''
   \<and> ''bob'' \<noteq> ''alice''
   \<and> arg_user_id detail_request = Some ''alice''
   \<and> get_user_reports (demo_env\<lparr>db := Some demo_db\<rparr>) detail_request ''alice'' =
       ((JObj [(''error'', JStr ''Unauthorized: You can only access your own reports'')], 403), [])
   \<and> get_report_detail (demo_env\<lparr>db := None\<rparr>) detail_request ''r1'' =
       ((JObj [(''error'', JStr ''Database not available'')], 503), [])
   \<and> get_report_detail (demo_env\<lparr>db := Some demo_db\<rparr>) detail_request ''r1'' =
       ((JObj [(''error'', JStr ''Unauthorized: You can only access your own reports'')], 403), [])"
proof -
  have h1: "get_authenticated_user demo_env detail_request = Inr ''bob''"
    by code_simp
  have h2: "''bob'' \<noteq> ''alice''"
    by simp
  have h3: "arg_user_id detail_request = Some ''alice''"
    by (simp add: detail_request_def)
  from cross_user_denied [OF h1 h2, of "Some demo_db" "''r1''" demo_db] h1 h2 h3
  show ?thesis
    by simp
qed

text \<open>
  C7 as stated answers 403 to every report-detail request whose credential is for
  another subject. With the document store unavailable, the request of \<open>bob\<close> for a
  report of \<open>alice\<close> is answered 503.
\<close>

theorem cross_user_detail_counterexample:
  "get_authenticated_user offline_env detail_request = Inr ''bob''
   \<and> arg_user_id detail_request = Some ''alice''
   \<and> fst (get_report_detail offline_env detail_request ''r1'') =
       (JObj [(''error'', JStr ''Database not available'')], 503)
   \<and> snd (fst (get_report_detail offline_env detail_request ''r1'')) \<noteq> 403"
  by code_simp

text \<open>
  C10. For a report-detail request with a valid credential, an unavailable document
  store gives 503 whatever the \<open>user_id\<close> parameter is (missing, mismatched or
  matching), and a 400 or 403 answer implies that the store is available.
\<close>

theorem detail_store_checked_first:
  assumes "get_authenticated_user env req = Inr authenticated_uid"
  shows "(db env = None \<longrightarrow>
            get_report_detail env req report_id =
              ((JObj [(''error'', JStr ''Database not available'')], 503), []))
       \<and> (snd (fst (get_report_detail env req report_id)) \<in> {400, 403} \<longrightarrow> db env \<noteq> None)"
  using assms
  by (cases "db env") (simp_all add: get_report_detail_def error_body_def)

theorem detail_store_checked_first_witness:
  "(get_authenticated_user offline_env list_request = Inr ''bob''
      \<and> db offline_env = None
      \<and> arg_user_id list_request = None
      \<and> get_report_detail offline_env list_request ''r1'' =
          ((JObj [(''error'', JStr ''Database not available'')], 503), []))
   \<and> (get_authenticated_user demo_env detail_request = Inr ''bob''
      \<and> snd (fst (get_report_detail demo_env detail_request ''r1'')) \<in> {400, 403}
      \<and> db demo_env \<noteq> None)"
proof -
  have h1: "get_authenticated_user offline_env list_request = Inr ''bob''"
    by code_simp
  have h2: "db offline_env = None"
    by (simp add: offline_env_def)
  have h3: "arg_user_id list_request = None"
    by (simp add: list_request_def)
  have g1: "get_authenticated_user demo_env detail_request = Inr ''bob''"
    by code_simp
  have g2: "snd (fst (get_report_detail demo_env detail_request ''r1'')) \<in> {400, 403}"
    by code_simp
  from detail_store_checked_first [OF h1, of "''r1''"] h2
  have unavailable: "get_report_detail offline_env list_request ''r1'' =
      ((JObj [(''error'', JStr ''Database not available'')], 503), [])"
    by blast
  from detail_store_checked_first [OF g1, of "''r1''"] g2
  have available: "db demo_env \<noteq> None"
    by blast
  from h1 h2 h3 g1 g2 unavailable available show ?thesis
    by blast
qed

text \<open>
  C9. For an authorised list request with the document store available, the store is
  queried once, with the limit \<open>min n 100\<close> when the \<open>limit\<close> parameter converts to the
  integer \<open>n\<close> (so with \<open>n\<close> itself when \<open>n\<close> is zero or negative), and with 50 when the
  parameter does not convert to an integer.
\<close>

theorem limit_only_capped:
  assumes "get_authenticated_user env req = Inr user_id"
    and "db env = Some d"
  shows "(arg_limit req = Some s \<and> py_int env s = Some n \<longrightarrow>
            snd (get_user_reports env req user_id) = [QueryStream user_id (min n 100)]
          \<and> (n \<le> 0 \<longrightarrow> snd (get_user_reports env req user_id) = [QueryStream user_id n]))
       \<and> (arg_limit req = Some s \<and> py_int env s = None \<longrightarrow>
            snd (get_user_reports env req user_id) = [QueryStream user_id 50])"
  using assms
  by (auto simp add: get_user_reports_def get_limit_def Let_def split: sum.splits)

theorem limit_only_capped_witness:
  "(get_authenticated_user demo_env list_request = Inr ''bob''
      \<and> db demo_env = Some demo_db
      \<and> arg_limit list_request = Some ''-5''
      \<and> py_int demo_env ''-5'' = Some (- 5)
      \<and> snd (get_user_reports demo_env list_request ''bob'') = [QueryStream ''bob'' (- 5)])
   \<and> (arg_limit (list_request\<lparr>arg_limit := Some ''many''\<rparr>) = Some ''many''
      \<and> py_int demo_env ''many'' = None
      \<and> snd (get_user_reports demo_env (list_request\<lparr>arg_limit := Some ''many''\<rparr>) ''bob'')
          = [QueryStream ''bob'' 50])"
proof -
  have h1: "get_authenticated_user demo_env list_request = Inr ''bob''"
    by code_simp
  have h2: "db demo_env = Some demo_db"
    by (simp add: demo_env_def)
  have h3: "arg_limit list_request = Some ''-5''"
    by (simp add: list_request_def)
  have h4: "py_int demo_env ''-5'' = Some (- 5)"
    by (simp add: demo_env_def)
  have g1: "get_authenticated_user demo_env (list_request\<lparr>arg_limit := Some ''many''\<rparr>) = Inr ''bob''"
    by code_simp
  have g3: "arg_limit (list_request\<lparr>arg_limit := Some ''many''\<rparr>) = Some ''many''"
    by simp
  have g4: "py_int demo_env ''many'' = None"
    by (simp add: demo_env_def)
  from limit_only_capped [OF h1 h2, of "''-5''" "- 5"] h3 h4
  have negative: "snd (get_user_reports demo_env list_request ''bob'') = [QueryStream ''bob'' (- 5)]"
    by simp
  from limit_only_capped [OF g1 h2, of "''many''" 0] g3 g4
  have fallback: "snd (get_user_reports demo_env (list_request\<lparr>arg_limit := Some ''many''\<rparr>) ''bob'')
      = [QueryStream ''bob'' 50]"
    by blast
  from h1 h2 h3 h4 g3 g4 negative fallback show ?thesis
    by blast
qed

end
